theory Spec2Isabelle
  imports Complex_Main "HOL-Library.Finite_Map" "HOL-Library.AList"
begin

section \<open>JSON values\<close>

text \<open>
  A wire message is a JSON value. A JavaScript object is a finite map from keys to
  values: a key is either bound or absent, and two objects with the same bindings are
  the same object whatever the order of their keys. Numbers are never inspected by the
  schemas below; every finite double is a rational.
\<close>

datatype json =
    JNull
  | JBool bool
  | JNum rat
  | JStr string
  | JArr "json list"
  | JObj "(string, json) fmap"

section \<open>The validator: schemas and their \<open>parse\<close>\<close>

text \<open>
  The message schemas of the source are values built with the combinators of the
  validation library, which the source imports as \<^verbatim>\<open>z\<close> from \<^verbatim>\<open>zod/v4\<close>. The
  library is a dependency, not part of the sources; the schemas are embedded as terms
  of a datatype with one constructor for each combinator the source uses, and the
  library's parsing as an interpreter \<open>parse\<close> of these terms, which follows the
  library's behaviour for these combinators:
  \<^verbatim>\<open>z.string()\<close>, \<^verbatim>\<open>z.string().base64()\<close>, \<^verbatim>\<open>z.boolean()\<close>,
  \<^verbatim>\<open>z.literal(l)\<close>, \<^verbatim>\<open>z.unknown()\<close>, \<^verbatim>\<open>z.optional(s)\<close>,
  \<^verbatim>\<open>s.default(d)\<close>, \<^verbatim>\<open>z.array(s)\<close>, \<^verbatim>\<open>z.union([..])\<close> and
  \<^verbatim>\<open>z.object(shape)\<close>. The flag of \<open>ZObject\<close> says whether \<^verbatim>\<open>.passthrough()\<close>
  was applied (unknown keys kept) or not (unknown keys stripped, the default of
  \<^verbatim>\<open>z.object\<close>).
\<close>

datatype schema =
    ZString
  | ZBase64
  | ZBoolean
  | ZLiteral string
  | ZUnknown
  | ZOptional schema
  | ZDefault schema json
  | ZArray schema
  | ZUnion "schema list"
  | ZObject "(string \<times> schema) list" bool

text \<open>
  A validation failure (\<open>SchemaValidationError\<close>) names the path of the first offending
  value: object keys and array indices from the root.
\<close>

datatype seg = Key string | Idx nat

type_synonym issue = "seg list"

text \<open>
  Modelled from the spec: the check behind \<^verbatim>\<open>.base64()\<close> belongs to the validation
  library, which is not part of the sources; the spec asks for "valid base64". Taken
  here as the padded standard alphabet: groups of four characters, the last group
  possibly ending in one or two \<open>=\<close>.
\<close>

definition base64_char :: "char \<Rightarrow> bool" where
  "base64_char c \<longleftrightarrow>
     c \<in> set ''ABCDEFGHIJKLMNOPQRSTUVWXYZabcdefghijklmnopqrstuvwxyz0123456789+/''"

fun is_base64 :: "string \<Rightarrow> bool" where
  "is_base64 [] = True"
| "is_base64 [a, b, c, d] =
     (base64_char a \<and> base64_char b \<and>
      ((c = CHR ''='' \<and> d = CHR ''='') \<or>
       (base64_char c \<and> (d = CHR ''='' \<or> base64_char d))))"
| "is_base64 (a # b # c # d # rest) =
     (base64_char a \<and> base64_char b \<and> base64_char c \<and> base64_char d \<and> is_base64 rest)"
| "is_base64 _ = False"

text \<open>
  A schema is "optional on input" when it accepts a missing value by itself:
  optional and defaulted schemas, and a union with such a member.
\<close>

fun optin :: "schema \<Rightarrow> bool" where
  "optin (ZOptional s) = True"
| "optin (ZDefault s d) = True"
| "optin (ZUnion ss) = (\<exists>s \<in> set ss. optin s)"
| "optin _ = False"

text \<open>
  The elements of an array are parsed in order; the first failing element gives the
  issue, prefixed with its index. An element is never missing, and no schema turns a
  present value into a missing one (lemma \<open>parse_present\<close> below); re-serialisation
  would write such a slot as \<open>null\<close>.
\<close>

fun first_issue :: "nat \<Rightarrow> (issue + json option) list \<Rightarrow> issue + json list" where
  "first_issue i [] = Inr []"
| "first_issue i (r # rs) =
     (case r of
        Inl p \<Rightarrow> Inl (Idx i # p)
      | Inr v \<Rightarrow>
          (case first_issue (Suc i) rs of
             Inl p \<Rightarrow> Inl p
           | Inr vs \<Rightarrow> Inr ((case v of None \<Rightarrow> JNull | Some x \<Rightarrow> x) # vs)))"

text \<open>
  \<open>parse s v\<close> validates the value \<open>v\<close> (\<open>None\<close> is JavaScript's \<open>undefined\<close>: the
  value of a missing key) against \<open>s\<close> and returns the parsed value or the issue.

  \<^item> A string, boolean or literal schema accepts exactly the values of its type (the
    literal: exactly its value) and returns them; \<open>unknown\<close> accepts every value, a
    missing one too.
  \<^item> An object schema accepts objects only (not arrays, not \<open>null\<close>). It runs each
    field's schema on the value bound to its key (or on \<open>undefined\<close>), in the order of
    the shape; a field whose result is \<open>undefined\<close> is left out of the result. No
    check of a key's presence is made beyond what its schema says of \<open>undefined\<close>.
    With passthrough, the keys of the input outside the shape are copied to the
    result; without, those keys are dropped. The result object is filled by assignment,
    key by key, and an assignment to the key \<open>__proto__\<close> sets the prototype of the
    object, not a field: an input key \<open>__proto__\<close> is therefore not among the fields
    of the result, which are what re-serialisation writes. (No shape of the source has
    this key.)
  \<^item> An optional schema accepts a missing value. When its inner schema is optional on
    input, the missing value is handed to the inner schema, so that
    \<^verbatim>\<open>.default(d).optional()\<close> yields \<open>d\<close>: version 4 of the library applies a
    default inside an optional field (lemma \<open>optin_accepts_missing\<close>: the inner schema
    then accepts the missing value).
  \<^item> A defaulted schema returns its default for a missing value.
  \<^item> A union returns the result of its first member that accepts the value.
  \<^item> The issue of a failure is the path of the first offending value, in this order.
\<close>

fun parse :: "schema \<Rightarrow> json option \<Rightarrow> issue + json option"
and parse_shape ::
  "(string \<times> schema) list \<Rightarrow> (string, json) fmap \<Rightarrow> issue + (string, json) fmap"
and parse_options :: "schema list \<Rightarrow> json option \<Rightarrow> issue + json option" where
  "parse ZString v = (case v of Some (JStr s) \<Rightarrow> Inr v | _ \<Rightarrow> Inl [])"
| "parse ZBase64 v =
     (case v of Some (JStr s) \<Rightarrow> (if is_base64 s then Inr v else Inl []) | _ \<Rightarrow> Inl [])"
| "parse ZBoolean v = (case v of Some (JBool b) \<Rightarrow> Inr v | _ \<Rightarrow> Inl [])"
| "parse (ZLiteral l) v =
     (case v of Some (JStr s) \<Rightarrow> (if s = l then Inr v else Inl []) | _ \<Rightarrow> Inl [])"
| "parse ZUnknown v = Inr v"
| "parse (ZOptional s) v =
     (if optin s then parse s v
      else (case v of None \<Rightarrow> Inr None | Some x \<Rightarrow> parse s v))"
| "parse (ZDefault s d) v = (case v of None \<Rightarrow> Inr (Some d) | Some x \<Rightarrow> parse s v)"
| "parse (ZArray s) v =
     (case v of
        Some (JArr xs) \<Rightarrow>
          (case first_issue 0 (map (\<lambda>x. parse s (Some x)) xs) of
             Inl p \<Rightarrow> Inl p
           | Inr ys \<Rightarrow> Inr (Some (JArr ys)))
      | _ \<Rightarrow> Inl [])"
| "parse (ZUnion ss) v = parse_options ss v"
| "parse (ZObject shape loose) v =
     (case v of
        Some (JObj m) \<Rightarrow>
          (case parse_shape shape m of
             Inl p \<Rightarrow> Inl p
           | Inr known \<Rightarrow>
               Inr (Some (JObj
                 (if loose
                  then fmadd
                    (fmfilter (\<lambda>k. k \<notin> fst ` set shape \<and> k \<noteq> ''__proto__'') m) known
                  else known))))
      | _ \<Rightarrow> Inl [])"
| "parse_shape [] m = Inr fmempty"
| "parse_shape ((k, s) # rest) m =
     (case parse s (fmlookup m k) of
        Inl p \<Rightarrow> Inl (Key k # p)
      | Inr r \<Rightarrow>
          (case parse_shape rest m of
             Inl p \<Rightarrow> Inl p
           | Inr known \<Rightarrow> Inr (case r of None \<Rightarrow> known | Some x \<Rightarrow> fmupd k x known)))"
| "parse_options [] v = Inl []"
| "parse_options (s # ss) v =
     (case parse s v of Inr r \<Rightarrow> Inr r | Inl p \<Rightarrow> parse_options ss v)"

definition accepts :: "schema \<Rightarrow> json option \<Rightarrow> bool" where
  "accepts s v = (case parse s v of Inl p \<Rightarrow> False | Inr r \<Rightarrow> True)"

subsection \<open>The schema combinators of the source\<close>

definition object :: "(string \<times> schema) list \<Rightarrow> schema" where
  "object shape = ZObject shape False"

fun passthrough :: "schema \<Rightarrow> schema" where
  "passthrough (ZObject shape loose) = ZObject shape True"
| "passthrough s = s"

text \<open>
  \<^verbatim>\<open>s.extend(fields)\<close> is the object schema with the shape
  \<^verbatim>\<open>{...shape, ...fields}\<close>: a field already in the shape is replaced in place, a new
  one is added at the end. The passthrough flag is kept.
\<close>

fun extend :: "schema \<Rightarrow> (string \<times> schema) list \<Rightarrow> schema" where
  "extend (ZObject shape loose) fields =
     ZObject (foldl (\<lambda>sh (k, s). AList.update k s sh) shape fields) loose"
| "extend s fields = s"

definition or :: "schema \<Rightarrow> schema \<Rightarrow> schema" where
  "or a b = ZUnion [a, b]"

section \<open>The protocol's constants and message schemas\<close>

definition LATEST_PROTOCOL_VERSION :: string where
  "LATEST_PROTOCOL_VERSION = ''2025-06-18''"

definition SUPPORTED_PROTOCOL_VERSIONS :: "string list" where
  "SUPPORTED_PROTOCOL_VERSIONS = [LATEST_PROTOCOL_VERSION, ''2025-03-26'', ''2024-11-05'']"

definition ClientOrServerImplementationSchema :: schema where
  "ClientOrServerImplementationSchema =
     passthrough (object [(''name'', ZString), (''version'', ZString)])"

definition BaseParamsSchema :: schema where
  "BaseParamsSchema =
     passthrough (object [(''_meta'', ZOptional (passthrough (object [])))])"

definition ResultSchema :: schema where
  "ResultSchema = BaseParamsSchema"

definition RequestSchema :: schema where
  "RequestSchema =
     object [(''method'', ZString), (''params'', ZOptional BaseParamsSchema)]"

definition ServerCapabilitiesSchema :: schema where
  "ServerCapabilitiesSchema =
     passthrough (object
       [(''experimental'', ZOptional (passthrough (object []))),
        (''logging'', ZOptional (passthrough (object []))),
        (''prompts'', ZOptional (passthrough (object
           [(''listChanged'', ZOptional ZBoolean)]))),
        (''resources'', ZOptional (passthrough (object
           [(''subscribe'', ZOptional ZBoolean),
            (''listChanged'', ZOptional ZBoolean)]))),
        (''tools'', ZOptional (passthrough (object
           [(''listChanged'', ZOptional ZBoolean)])))])"

definition InitializeResultSchema :: schema where
  "InitializeResultSchema =
     extend ResultSchema
       [(''protocolVersion'', ZString),
        (''capabilities'', ServerCapabilitiesSchema),
        (''serverInfo'', ClientOrServerImplementationSchema),
        (''instructions'', ZOptional ZString)]"

definition PaginatedResultSchema :: schema where
  "PaginatedResultSchema = extend ResultSchema [(''nextCursor'', ZOptional ZString)]"

definition ToolSchema :: schema where
  "ToolSchema =
     passthrough (object
       [(''name'', ZString),
        (''description'', ZOptional ZString),
        (''inputSchema'', passthrough (object
           [(''type'', ZLiteral ''object''),
            (''properties'', ZOptional (passthrough (object [])))]))])"

definition ListToolsResultSchema :: schema where
  "ListToolsResultSchema = extend PaginatedResultSchema [(''tools'', ZArray ToolSchema)]"

definition TextContentSchema :: schema where
  "TextContentSchema =
     passthrough (object [(''type'', ZLiteral ''text''), (''text'', ZString)])"

definition ImageContentSchema :: schema where
  "ImageContentSchema =
     passthrough (object
       [(''type'', ZLiteral ''image''), (''data'', ZBase64), (''mimeType'', ZString)])"

definition ResourceContentsSchema :: schema where
  "ResourceContentsSchema =
     passthrough (object [(''uri'', ZString), (''mimeType'', ZOptional ZString)])"

definition TextResourceContentsSchema :: schema where
  "TextResourceContentsSchema = extend ResourceContentsSchema [(''text'', ZString)]"

definition BlobResourceContentsSchema :: schema where
  "BlobResourceContentsSchema = extend ResourceContentsSchema [(''blob'', ZBase64)]"

definition EmbeddedResourceSchema :: schema where
  "EmbeddedResourceSchema =
     passthrough (object
       [(''type'', ZLiteral ''resource''),
        (''resource'', ZUnion [TextResourceContentsSchema, BlobResourceContentsSchema])])"

text \<open>
  The two operands of \<open>CallToolResultSchema\<close>: the \<open>content[]\<close> dialect and the legacy
  \<open>toolResult\<close> dialect.
\<close>

definition ContentResultSchema :: schema where
  "ContentResultSchema =
     extend ResultSchema
       [(''content'',
           ZArray (ZUnion [TextContentSchema, ImageContentSchema, EmbeddedResourceSchema])),
        (''isError'', ZOptional (ZDefault ZBoolean (JBool False)))]"

definition LegacyResultSchema :: schema where
  "LegacyResultSchema = extend ResultSchema [(''toolResult'', ZUnknown)]"

definition CallToolResultSchema :: schema where
  "CallToolResultSchema = or ContentResultSchema LegacyResultSchema"

subsection \<open>Predicates on schemas and values\<close>

text \<open>
  A schema is passthrough-only when every object in it keeps unknown keys and no
  field has a default: \<open>parse\<close> then adds nothing, and drops nothing but a key
  \<open>__proto__\<close>.
\<close>

fun passthrough_only :: "schema \<Rightarrow> bool" where
  "passthrough_only (ZOptional s) = passthrough_only s"
| "passthrough_only (ZDefault s d) = False"
| "passthrough_only (ZArray s) = passthrough_only s"
| "passthrough_only (ZUnion ss) = (\<forall>s \<in> set ss. passthrough_only s)"
| "passthrough_only (ZObject shape loose) =
     (loose \<and> (\<forall>f \<in> set shape. passthrough_only (snd f)))"
| "passthrough_only _ = True"

text \<open>What a field lookup can be: the value of the key, or \<open>None\<close> when it is absent.\<close>

fun absent_or_object :: "json option \<Rightarrow> bool" where
  "absent_or_object None = True"
| "absent_or_object (Some (JObj m)) = True"
| "absent_or_object _ = False"

fun is_string :: "json option \<Rightarrow> bool" where
  "is_string (Some (JStr s)) = True"
| "is_string _ = False"

fun absent_or_string :: "json option \<Rightarrow> bool" where
  "absent_or_string None = True"
| "absent_or_string v = is_string v"

fun is_base64_string :: "json option \<Rightarrow> bool" where
  "is_base64_string (Some (JStr s)) = is_base64 s"
| "is_base64_string _ = False"


text \<open>
  A value is free of \<open>__proto__\<close> when no object in it, at any depth, has a key of that
  name.
\<close>

primrec proto_free :: "json \<Rightarrow> bool" where
  "proto_free JNull = True"
| "proto_free (JBool b) = True"
| "proto_free (JNum n) = True"
| "proto_free (JStr s) = True"
| "proto_free (JArr xs) = list_all (\<lambda>b. b) (map proto_free xs)"
| "proto_free (JObj m) =
     (fmlookup m ''__proto__'' = None \<and> fmpred (\<lambda>k b. b) (fmmap proto_free m))"




section \<open>The client around the schemas\<close>

text \<open>
  Modelled from the spec: the client's error classes are not among the sources. Section 7
  names them; these are the ones the operations below produce. \<open>TransportFailure\<close>
  stands for a request that got no response.
\<close>

datatype client_error =
    ProtocolVersionMismatch "string list" string
  | SchemaValidationError issue
  | PaginationLoopError
  | InputValidationError string issue
  | TransportFailure

subsection \<open>Version negotiator\<close>

text \<open>
  Modelled from the spec: the negotiation of the initialize handshake is client code
  that is not among the sources (only the constants it reads are). Section 4.1: if the
  server's offered version is in the supported list, it is adopted; otherwise the
  negotiation fails with \<open>ProtocolVersionMismatch\<close>, which carries the client's
  supported list and the offered value, and the session must not proceed.
\<close>

definition negotiate :: "string list \<Rightarrow> string \<Rightarrow> client_error + string" where
  "negotiate supported offered =
     (if offered \<in> set supported then Inr offered
      else Inl (ProtocolVersionMismatch supported offered))"

text \<open>
  Modelled from the spec: the session after the handshake, for the same missing client
  code. It holds the negotiated version, or is unusable when the negotiation failed.
\<close>

datatype session = Ready string | Unusable

text \<open>
  Modelled from the spec: the handshake negotiates against the client's list,
  \<open>SUPPORTED_PROTOCOL_VERSIONS\<close>, and the session proceeds only with an adopted
  version.
\<close>

definition handshake :: "string \<Rightarrow> session" where
  "handshake offered =
     (case negotiate SUPPORTED_PROTOCOL_VERSIONS offered of
        Inl e \<Rightarrow> Unusable
      | Inr v \<Rightarrow> Ready v)"

text \<open>Modelled from the spec: whether the session may proceed.\<close>

fun usable :: "session \<Rightarrow> bool" where
  "usable (Ready v) = True"
| "usable Unusable = False"

subsection \<open>Catalog paginator\<close>

text \<open>
  Modelled from the spec: a validated \<open>PaginatedResult\<close> of the list operation, its
  \<open>tools\<close> array and its optional \<open>nextCursor\<close>.
\<close>

record page =
  tools :: "json list"
  nextCursor :: "string option"

text \<open>
  Modelled from the spec: the aggregate catalog fetch is client code that is not among
  the sources. Section 4.4: it issues list requests, starting with no cursor, feeds each
  response's \<open>nextCursor\<close> into the next request and concatenates the \<open>tools\<close>
  arrays, until a response omits \<open>nextCursor\<close>; it fails with \<open>PaginationLoopError\<close>
  when the same cursor value is observed twice in sequence, and a failure discards what
  was fetched so far. The server is the sequence of pages it answers with, in order;
  \<open>prev\<close> is the cursor of the request being answered and \<open>acc\<close> the tools fetched so
  far. When the responses run out while a cursor is pending, the request fails.
\<close>

fun aggregate :: "string option \<Rightarrow> json list \<Rightarrow> page list \<Rightarrow> client_error + json list" where
  "aggregate prev acc [] = Inl TransportFailure"
| "aggregate prev acc (p # ps) =
     (case nextCursor p of
        None \<Rightarrow> Inr (acc @ tools p)
      | Some c \<Rightarrow>
          (if prev = Some c then Inl PaginationLoopError
           else aggregate (Some c) (acc @ tools p) ps))"

text \<open>
  Modelled from the spec: the aggregate operation starts with no cursor and nothing
  fetched.
\<close>

definition listToolsAll :: "page list \<Rightarrow> client_error + json list" where
  "listToolsAll responses = aggregate None [] responses"

subsection \<open>Tool proxy\<close>

text \<open>
  Modelled from the spec: the generated proxy is not among the sources (only the type
  \<^verbatim>\<open>ToolSchemas\<close> of its input schemas is). A proxy is bound to one tool: its name
  and its input schema. The input schema is a \<^verbatim>\<open>FlexibleSchema\<close>, an opaque
  validator: it returns the validated value or the schema path that failed.
\<close>

record tool_proxy =
  toolName :: string
  inputSchema :: "json \<Rightarrow> issue + json"

text \<open>
  Modelled from the spec: the call operation's request, section 6:
  \<^verbatim>\<open>{method: "tools/call", params: {name, arguments}}\<close>.
\<close>

record call_request =
  "method" :: string
  name :: string
  arguments :: json

text \<open>
  Modelled from the spec: the generated proxy's \<open>execute\<close> is client code that is not
  among the sources. Section 4.6: the input is validated against the tool's input schema
  before any network activity; a failure is an \<open>InputValidationError\<close> with the tool's
  name and the failing path, and nothing is sent; otherwise one \<^verbatim>\<open>tools/call\<close>
  request with the tool's name and the input is sent, and the response is decoded
  through \<open>CallToolResultSchema\<close>. The transport is the server's answer to a request
  (\<open>respond\<close>) and the list of the requests sent so far, which is returned updated.
\<close>

definition execute ::
  "tool_proxy \<Rightarrow> (call_request \<Rightarrow> json) \<Rightarrow> json \<Rightarrow> call_request list \<Rightarrow>
     (client_error + json) \<times> call_request list" where
  "execute proxy respond input sent =
     (case inputSchema proxy input of
        Inl path \<Rightarrow> (Inl (InputValidationError (toolName proxy) path), sent)
      | Inr valid \<Rightarrow>
          (let request = \<lparr>method = ''tools/call'', name = toolName proxy, arguments = input\<rparr>
           in (case parse CallToolResultSchema (Some (respond request)) of
                 Inl p \<Rightarrow> Inl (SchemaValidationError p)
               | Inr None \<Rightarrow> Inl (SchemaValidationError [])
               | Inr (Some result) \<Rightarrow> Inr result,
               sent @ [request])))"

text \<open>
  Modelled from the spec: the input schema of the example of section 8,
  \<^verbatim>\<open>{query: string, minLength 1}\<close>, as a validator.
\<close>

definition query_schema :: "json \<Rightarrow> issue + json" where
  "query_schema input =
     (case input of
        JObj m \<Rightarrow>
          (case fmlookup m ''query'' of
             Some (JStr q) \<Rightarrow> (if 1 \<le> length q then Inr input else Inl [Key ''query''])
           | _ \<Rightarrow> Inl [Key ''query''])
      | _ \<Rightarrow> Inl [])"

section \<open>Properties\<close>

subsection \<open>The shapes of the schemas, unfolded\<close>

lemma ResultSchema_unfold:
  "ResultSchema = ZObject [(''_meta'', ZOptional (ZObject [] True))] True"
  by (simp add: ResultSchema_def BaseParamsSchema_def object_def)

lemma ContentResultSchema_unfold:
  "ContentResultSchema =
     ZObject
       [(''_meta'', ZOptional (ZObject [] True)),
        (''content'',
           ZArray (ZUnion [TextContentSchema, ImageContentSchema, EmbeddedResourceSchema])),
        (''isError'', ZOptional (ZDefault ZBoolean (JBool False)))] True"
  by (simp add: ContentResultSchema_def ResultSchema_unfold)

lemma LegacyResultSchema_unfold:
  "LegacyResultSchema =
     ZObject [(''_meta'', ZOptional (ZObject [] True)), (''toolResult'', ZUnknown)] True"
  by (simp add: LegacyResultSchema_def ResultSchema_unfold)

lemma RequestSchema_unfold:
  "RequestSchema =
     ZObject [(''method'', ZString),
       (''params'', ZOptional (ZObject [(''_meta'', ZOptional (ZObject [] True))] True))] False"
  by (simp add: RequestSchema_def BaseParamsSchema_def object_def)

lemma TextResourceContentsSchema_unfold:
  "TextResourceContentsSchema =
     ZObject [(''uri'', ZString), (''mimeType'', ZOptional ZString), (''text'', ZString)] True"
  by (simp add: TextResourceContentsSchema_def ResourceContentsSchema_def object_def)

lemma BlobResourceContentsSchema_unfold:
  "BlobResourceContentsSchema =
     ZObject [(''uri'', ZString), (''mimeType'', ZOptional ZString), (''blob'', ZBase64)] True"
  by (simp add: BlobResourceContentsSchema_def ResourceContentsSchema_def object_def)

lemma EmbeddedResourceSchema_unfold:
  "EmbeddedResourceSchema =
     ZObject [(''type'', ZLiteral ''resource''),
        (''resource'', ZUnion [TextResourceContentsSchema, BlobResourceContentsSchema])] True"
  by (simp add: EmbeddedResourceSchema_def object_def)

subsection \<open>General facts about \<open>parse\<close>\<close>

text \<open>A present value is never parsed to a missing one.\<close>

lemma parse_present_aux:
  "\<forall>x r. v = Some x \<longrightarrow> parse s v = Inr r \<longrightarrow> r \<noteq> None"
  "(shape :: (string \<times> schema) list) = shape \<and> (m :: (string, json) fmap) = m"
  "\<forall>x r. v = Some x \<longrightarrow> parse_options ss v = Inr r \<longrightarrow> r \<noteq> None"
  by (induction s v and shape m and ss v rule: parse_parse_shape_parse_options.induct)
    (auto split: option.splits json.splits sum.splits if_splits)

lemma parse_present: "parse s (Some x) = Inr r \<Longrightarrow> r \<noteq> None"
  using parse_present_aux(1) by blast

text \<open>
  A schema that is optional on input accepts a missing value, so an optional schema
  around it never fails on a missing value either.
\<close>

lemma parse_options_member:
  "s \<in> set ss \<Longrightarrow> parse s v = Inr r \<Longrightarrow> \<exists>r'. parse_options ss v = Inr r'"
  by (induction ss) (auto split: sum.splits)

lemma optin_accepts_missing: "optin s \<Longrightarrow> \<exists>r. parse s None = Inr r"
proof (induction s)
  case (ZUnion ss)
  then obtain s where "s \<in> set ss" "optin s" by auto
  with ZUnion show ?case by (auto dest: parse_options_member)
qed auto

lemma accepts_union2: "accepts (ZUnion [a, b]) v = (accepts a v \<or> accepts b v)"
  by (simp add: accepts_def split: sum.splits)

text \<open>The schemas of single fields.\<close>

lemma parse_meta:
  "parse (ZOptional (ZObject [] True)) v =
     (if absent_or_object v
      then Inr (case v of Some (JObj m) \<Rightarrow> Some (JObj (fmdrop ''__proto__'' m)) | _ \<Rightarrow> v)
      else Inl [])"
  by (cases v rule: absent_or_object.cases) (auto intro!: fmap_ext)

lemma parse_string: "parse ZString v = (if is_string v then Inr v else Inl [])"
  by (cases v rule: is_string.cases) simp_all

lemma parse_optional_string:
  "parse (ZOptional ZString) v = (if absent_or_string v then Inr v else Inl [])"
  by (cases v rule: is_string.cases) simp_all

lemma parse_base64: "parse ZBase64 v = (if is_base64_string v then Inr v else Inl [])"
  by (cases v rule: is_string.cases) simp_all

lemma parse_literal: "parse (ZLiteral l) v = (if v = Some (JStr l) then Inr v else Inl [])"
  by (cases v rule: is_string.cases) auto

lemma parse_isError:
  "parse (ZOptional (ZDefault ZBoolean d)) v = Inr r \<Longrightarrow>
   r = (case v of None \<Rightarrow> Some d | Some x \<Rightarrow> Some x)"
  by (auto split: option.splits json.splits)


subsection \<open>Values free of \<open>__proto__\<close>\<close>

lemma proto_free_JArr: "proto_free (JArr xs) = (\<forall>x \<in> set xs. proto_free x)"
  by (simp add: list_all_iff)

lemma proto_free_lookup:
  "proto_free (JObj m) \<Longrightarrow> pred_option proto_free (fmlookup m k)"
  by (cases "fmlookup m k") (auto simp: fmpred_iff)

lemma proto_free_key: "proto_free (JObj m) \<Longrightarrow> fmlookup m ''__proto__'' = None"
  by simp

subsection \<open>Passthrough-only schemas return a value free of \<open>__proto__\<close> unchanged\<close>

lemma first_issue_same:
  "first_issue i (map f xs) = Inr ys \<Longrightarrow>
   (\<And>x r. x \<in> set xs \<Longrightarrow> f x = Inr r \<Longrightarrow> r = Some x) \<Longrightarrow> ys = xs"
proof (induction xs arbitrary: i ys)
  case Nil
  then show ?case by simp
next
  case (Cons x xs)
  then show ?case
    by (fastforce split: sum.splits option.splits)
qed

lemma parse_identity_aux:
  "passthrough_only s \<longrightarrow> pred_option proto_free v \<longrightarrow>
     (\<forall>r. parse s v = Inr r \<longrightarrow> r = v)"
  "(\<forall>f \<in> set shape. passthrough_only (snd f)) \<longrightarrow> proto_free (JObj m) \<longrightarrow>
     (\<forall>known. parse_shape shape m = Inr known \<longrightarrow>
        known = fmrestrict_set (fst ` set shape) m)"
  "(\<forall>s \<in> set ss. passthrough_only s) \<longrightarrow> pred_option proto_free v \<longrightarrow>
     (\<forall>r. parse_options ss v = Inr r \<longrightarrow> r = v)"
proof (induction s v and shape m and ss v rule: parse_parse_shape_parse_options.induct)
  case (8 s v)
  show ?case
  proof (intro impI allI)
    fix r
    assume p: "passthrough_only (ZArray s)" and f: "pred_option proto_free v"
      and e: "parse (ZArray s) v = Inr r"
    from e obtain xs where v: "v = Some (JArr xs)"
      by (auto split: option.splits json.splits)
    from e v obtain ys where ys: "first_issue 0 (map (\<lambda>x. parse s (Some x)) xs) = Inr ys"
      and r: "r = Some (JArr ys)"
      by (auto split: sum.splits)
    from f v have fx: "\<forall>x \<in> set xs. proto_free x" by (simp add: list_all_iff)
    have "ys = xs"
      using ys
    proof (rule first_issue_same)
      fix x r'
      assume "x \<in> set xs" "parse s (Some x) = Inr r'"
      with 8 [OF v] p fx show "r' = Some x" by simp
    qed
    with r v show "r = v" by simp
  qed
next
  case (10 shape loose v)
  show ?case
  proof (intro impI allI)
    fix r
    assume p: "passthrough_only (ZObject shape loose)" and f: "pred_option proto_free v"
      and e: "parse (ZObject shape loose) v = Inr r"
    from e obtain m where v: "v = Some (JObj m)"
      by (auto split: option.splits json.splits)
    from f v have fm: "proto_free (JObj m)" by simp
    from e v obtain known where k: "parse_shape shape m = Inr known"
      and r: "r = Some (JObj
          (if loose
           then fmadd (fmfilter (\<lambda>k. k \<notin> fst ` set shape \<and> k \<noteq> ''__proto__'') m) known
           else known))"
      by (auto split: sum.splits)
    from 10 [OF v] p fm k have "known = fmrestrict_set (fst ` set shape) m" by simp
    moreover have
      "fmadd (fmfilter (\<lambda>k. k \<notin> fst ` set shape \<and> k \<noteq> ''__proto__'') m)
         (fmrestrict_set (fst ` set shape) m) = m"
      using proto_free_key [OF fm] by (intro fmap_ext) (auto simp: fmlookup_dom_iff)
    ultimately show "r = v" using r v p by simp
  qed
next
  case (12 k s rest m)
  show ?case
  proof (intro impI allI)
    fix known
    assume p: "\<forall>f \<in> set ((k, s) # rest). passthrough_only (snd f)"
      and fm: "proto_free (JObj m)"
      and e: "parse_shape ((k, s) # rest) m = Inr known"
    from e obtain r known' where a: "parse s (fmlookup m k) = Inr r"
      and b: "parse_shape rest m = Inr known'"
      and c: "known = (case r of None \<Rightarrow> known' | Some x \<Rightarrow> fmupd k x known')"
      by (auto split: sum.splits)
    from 12(1) p a proto_free_lookup [OF fm, of k] have r: "r = fmlookup m k" by simp
    from 12(2) [OF a] p fm b have k': "known' = fmrestrict_set (fst ` set rest) m" by simp
    show "known = fmrestrict_set (fst ` set ((k, s) # rest)) m"
      unfolding c r k' by (rule fmap_ext) (auto split: option.splits)
  qed
qed (auto split: option.splits json.splits sum.splits if_splits)

lemma parse_identity_opt:
  "passthrough_only s \<Longrightarrow> pred_option proto_free v \<Longrightarrow> parse s v = Inr r \<Longrightarrow> r = v"
  using parse_identity_aux(1) by blast

lemma parse_identity:
  "passthrough_only s \<Longrightarrow> proto_free j \<Longrightarrow> parse s (Some j) = Inr r \<Longrightarrow> r = Some j"
  by (rule parse_identity_opt) simp_all

text \<open>
  A key \<open>__proto__\<close> outside the shape is the one key that passthrough does not
  return: of \<^verbatim>\<open>{"__proto__": {"a": 1}, "k": "v"}\<close> the result keeps \<open>k\<close> only.
\<close>

lemma passthrough_drops_proto:
  "parse LegacyResultSchema (Some (JObj (fmap_of_list
     [(''__proto__'', JObj (fmap_of_list [(''a'', JNum 1)])), (''k'', JStr ''v'')]))) =
   Inr (Some (JObj (fmap_of_list [(''k'', JStr ''v'')])))"
  by code_simp

lemma passthrough_only_content:
  "passthrough_only
     (ZArray (ZUnion [TextContentSchema, ImageContentSchema, EmbeddedResourceSchema]))"
  by (simp add: TextContentSchema_def ImageContentSchema_def EmbeddedResourceSchema_unfold
      TextResourceContentsSchema_unfold BlobResourceContentsSchema_unfold object_def)

lemma passthrough_only_legacy: "passthrough_only LegacyResultSchema"
  by (simp add: LegacyResultSchema_unfold)

text \<open>
  The schemas of the file that are passthrough-only: all but \<open>RequestSchema\<close>, a plain
  object, and the \<open>content[]\<close> dialect of a tool result, with its default.
\<close>

lemma passthrough_only_schemas:
  "passthrough_only ClientOrServerImplementationSchema"
  "passthrough_only BaseParamsSchema"
  "passthrough_only ResultSchema"
  "passthrough_only ServerCapabilitiesSchema"
  "passthrough_only InitializeResultSchema"
  "passthrough_only PaginatedResultSchema"
  "passthrough_only ToolSchema"
  "passthrough_only ListToolsResultSchema"
  "passthrough_only TextContentSchema"
  "passthrough_only ImageContentSchema"
  "passthrough_only EmbeddedResourceSchema"
  "\<not> passthrough_only RequestSchema"
  "\<not> passthrough_only ContentResultSchema"
  by (simp_all add: ClientOrServerImplementationSchema_def BaseParamsSchema_def
      ResultSchema_def ServerCapabilitiesSchema_def InitializeResultSchema_def
      PaginatedResultSchema_def ToolSchema_def ListToolsResultSchema_def
      TextContentSchema_def ImageContentSchema_def EmbeddedResourceSchema_unfold
      TextResourceContentsSchema_unfold BlobResourceContentsSchema_unfold
      RequestSchema_def ContentResultSchema_def object_def)

subsection \<open>Resource content parts\<close>

lemma accepts_text_resource:
  "accepts TextResourceContentsSchema (Some (JObj r)) =
     (is_string (fmlookup r ''uri'') \<and> absent_or_string (fmlookup r ''mimeType'') \<and>
      is_string (fmlookup r ''text''))"
  unfolding accepts_def TextResourceContentsSchema_unfold
  by (simp add: parse_string parse_optional_string del: parse.simps(1,6) split: sum.splits)

lemma accepts_blob_resource:
  "accepts BlobResourceContentsSchema (Some (JObj r)) =
     (is_string (fmlookup r ''uri'') \<and> absent_or_string (fmlookup r ''mimeType'') \<and>
      is_base64_string (fmlookup r ''blob''))"
  unfolding accepts_def BlobResourceContentsSchema_unfold
  by (simp add: parse_string parse_optional_string parse_base64 del: parse.simps(1,2,6)
      split: sum.splits)

lemma accepts_embedded_resource:
  "accepts EmbeddedResourceSchema (Some (JObj m)) =
     (fmlookup m ''type'' = Some (JStr ''resource'') \<and>
      accepts (ZUnion [TextResourceContentsSchema, BlobResourceContentsSchema])
        (fmlookup m ''resource''))"
  unfolding EmbeddedResourceSchema_unfold
  by (simp add: accepts_def parse_literal del: parse.simps(4,9) split: sum.splits)


subsection \<open>Content parts\<close>




subsection \<open>What the result schemas accept and return\<close>

text \<open>
  What it is to match the legacy dialect: \<open>_meta\<close> absent or an object. The field
  \<open>toolResult\<close> is \<open>unknown\<close>, which a missing key satisfies.
\<close>

lemma accepts_legacy:
  "accepts LegacyResultSchema (Some (JObj m)) = absent_or_object (fmlookup m ''_meta'')"
  by (simp add: accepts_def LegacyResultSchema_unfold parse_meta del: parse.simps(6)
      split: sum.splits)

lemma accepts_content_meta:
  "accepts ContentResultSchema (Some (JObj m)) \<Longrightarrow> absent_or_object (fmlookup m ''_meta'')"
  by (simp add: accepts_def ContentResultSchema_unfold parse_meta del: parse.simps(6,8)
      split: sum.splits if_splits)








text \<open>The fields of a result of the \<open>content[]\<close> dialect, one by one.\<close>

lemma parse_content_result_fields:
  assumes "parse ContentResultSchema (Some (JObj m)) = Inr r"
  obtains r1 r2 r3 where
    "parse (ZOptional (ZObject [] True)) (fmlookup m ''_meta'') = Inr r1"
    "parse (ZArray (ZUnion [TextContentSchema, ImageContentSchema, EmbeddedResourceSchema]))
       (fmlookup m ''content'') = Inr r2"
    "parse (ZOptional (ZDefault ZBoolean (JBool False))) (fmlookup m ''isError'') = Inr r3"
    "r = Some (JObj (fmadd
       (fmfilter (\<lambda>k. k \<notin> {''_meta'', ''content'', ''isError''} \<and> k \<noteq> ''__proto__'') m)
       (case r1 of
          None \<Rightarrow>
            (case r2 of
               None \<Rightarrow> (case r3 of None \<Rightarrow> fmempty | Some x \<Rightarrow> fmupd ''isError'' x fmempty)
             | Some y \<Rightarrow> fmupd ''content'' y
                 (case r3 of None \<Rightarrow> fmempty | Some x \<Rightarrow> fmupd ''isError'' x fmempty))
        | Some z \<Rightarrow> fmupd ''_meta'' z
            (case r2 of
               None \<Rightarrow> (case r3 of None \<Rightarrow> fmempty | Some x \<Rightarrow> fmupd ''isError'' x fmempty)
             | Some y \<Rightarrow> fmupd ''content'' y
                 (case r3 of None \<Rightarrow> fmempty | Some x \<Rightarrow> fmupd ''isError'' x fmempty)))))"
  using assms unfolding ContentResultSchema_unfold
  by (simp del: parse.simps(6,8) split: sum.splits) (auto split: option.splits)

text \<open>
  Without an \<open>isError\<close> in the payload, the result's \<open>isError\<close> is \<open>false\<close>,
  whatever else the payload holds.
\<close>

lemma parse_content_isError:
  assumes "parse ContentResultSchema (Some (JObj m)) = Inr r"
    and "fmlookup m ''isError'' = None"
  shows "\<exists>m'. r = Some (JObj m') \<and> fmlookup m' ''isError'' = Some (JBool False)"
proof -
  from assms(1) obtain r1 r2 r3 where
    r3: "parse (ZOptional (ZDefault ZBoolean (JBool False))) (fmlookup m ''isError'') = Inr r3"
    and r: "r = Some (JObj (fmadd
       (fmfilter (\<lambda>k. k \<notin> {''_meta'', ''content'', ''isError''} \<and> k \<noteq> ''__proto__'') m)
       (case r1 of
          None \<Rightarrow>
            (case r2 of
               None \<Rightarrow> (case r3 of None \<Rightarrow> fmempty | Some x \<Rightarrow> fmupd ''isError'' x fmempty)
             | Some y \<Rightarrow> fmupd ''content'' y
                 (case r3 of None \<Rightarrow> fmempty | Some x \<Rightarrow> fmupd ''isError'' x fmempty))
        | Some z \<Rightarrow> fmupd ''_meta'' z
            (case r2 of
               None \<Rightarrow> (case r3 of None \<Rightarrow> fmempty | Some x \<Rightarrow> fmupd ''isError'' x fmempty)
             | Some y \<Rightarrow> fmupd ''content'' y
                 (case r3 of None \<Rightarrow> fmempty | Some x \<Rightarrow> fmupd ''isError'' x fmempty)))))"
    by (rule parse_content_result_fields)
  from parse_isError [OF r3] assms(2) have "r3 = Some (JBool False)" by simp
  with r show ?thesis
    by (auto split: option.splits)
qed

text \<open>
  A payload free of \<open>__proto__\<close> comes back whole, with \<open>isError = false\<close> added when
  it had none.
\<close>

lemma parse_content_result:
  assumes "parse ContentResultSchema (Some (JObj m)) = Inr r"
    and "proto_free (JObj m)"
  shows "r = Some (JObj (case fmlookup m ''isError'' of
                           None \<Rightarrow> fmupd ''isError'' (JBool False) m
                         | Some b \<Rightarrow> m))"
proof -
  let ?content = "ZArray (ZUnion [TextContentSchema, ImageContentSchema, EmbeddedResourceSchema])"
  from assms(1) obtain r1 r2 r3 where
    r1: "parse (ZOptional (ZObject [] True)) (fmlookup m ''_meta'') = Inr r1" and
    r2: "parse ?content (fmlookup m ''content'') = Inr r2" and
    r3: "parse (ZOptional (ZDefault ZBoolean (JBool False))) (fmlookup m ''isError'') = Inr r3"
    and r: "r = Some (JObj (fmadd
       (fmfilter (\<lambda>k. k \<notin> {''_meta'', ''content'', ''isError''} \<and> k \<noteq> ''__proto__'') m)
       (case r1 of
          None \<Rightarrow>
            (case r2 of
               None \<Rightarrow> (case r3 of None \<Rightarrow> fmempty | Some x \<Rightarrow> fmupd ''isError'' x fmempty)
             | Some y \<Rightarrow> fmupd ''content'' y
                 (case r3 of None \<Rightarrow> fmempty | Some x \<Rightarrow> fmupd ''isError'' x fmempty))
        | Some z \<Rightarrow> fmupd ''_meta'' z
            (case r2 of
               None \<Rightarrow> (case r3 of None \<Rightarrow> fmempty | Some x \<Rightarrow> fmupd ''isError'' x fmempty)
             | Some y \<Rightarrow> fmupd ''content'' y
                 (case r3 of None \<Rightarrow> fmempty | Some x \<Rightarrow> fmupd ''isError'' x fmempty)))))"
    by (rule parse_content_result_fields)
  have e1: "r1 = fmlookup m ''_meta''"
    using _ proto_free_lookup [OF assms(2)] r1 by (rule parse_identity_opt) simp
  have e2: "r2 = fmlookup m ''content''"
    using passthrough_only_content proto_free_lookup [OF assms(2)] r2
    by (rule parse_identity_opt)
  have e3: "r3 = (case fmlookup m ''isError'' of
                    None \<Rightarrow> Some (JBool False) | Some x \<Rightarrow> Some x)"
    using r3 by (rule parse_isError)
  show ?thesis
    unfolding r e1 e2 e3 using proto_free_key [OF assms(2)]
    by (simp, intro fmap_ext) (auto split: option.splits)
qed

lemma parse_request:
  assumes "parse RequestSchema (Some (JObj m)) = Inr r"
    and "proto_free (JObj m)"
  shows "r = Some (JObj (fmrestrict_set {''method'', ''params''} m))"
proof -
  let ?params = "ZOptional (ZObject [(''_meta'', ZOptional (ZObject [] True))] True)"
  let ?tail = "\<lambda>r2. (case r2 of None \<Rightarrow> fmempty | Some y \<Rightarrow> fmupd ''params'' y fmempty)"
  from assms(1) obtain r1 r2 where
    r1: "parse ZString (fmlookup m ''method'') = Inr r1" and
    r2: "parse ?params (fmlookup m ''params'') = Inr r2" and
    r: "r = Some (JObj
          (case r1 of None \<Rightarrow> ?tail r2 | Some x \<Rightarrow> fmupd ''method'' x (?tail r2)))"
    unfolding RequestSchema_unfold
    by (simp del: parse.simps(1,6) split: sum.splits) (auto split: option.splits)
  have e1: "r1 = fmlookup m ''method''"
    using _ proto_free_lookup [OF assms(2)] r1 by (rule parse_identity_opt) simp
  have e2: "r2 = fmlookup m ''params''"
    using _ proto_free_lookup [OF assms(2)] r2 by (rule parse_identity_opt) simp
  show ?thesis
    unfolding r e1 e2
    by (simp, rule fmap_ext) (auto split: option.splits)
qed

subsection \<open>Protocol versions\<close>

text \<open>
  C10. \<open>SUPPORTED_PROTOCOL_VERSIONS\<close> contains \<open>LATEST_PROTOCOL_VERSION\<close>, and it is the
  first element of the list.
\<close>

theorem latest_is_first_supported:
  "LATEST_PROTOCOL_VERSION \<in> set SUPPORTED_PROTOCOL_VERSIONS \<and>
   SUPPORTED_PROTOCOL_VERSIONS ! 0 = LATEST_PROTOCOL_VERSION \<and>
   SUPPORTED_PROTOCOL_VERSIONS \<noteq> []"
  by (simp add: SUPPORTED_PROTOCOL_VERSIONS_def)

subsection \<open>The two dialects of a tool result\<close>



text \<open>
  C8. A payload that both dialects accept is decoded as the \<open>content[]\<close> dialect: the
  union tries the \<open>content[]\<close> shape first and returns its result. Decoding is a
  function of the payload, so it is deterministic.
\<close>

theorem content_dialect_first:
  assumes "accepts ContentResultSchema v" and "accepts LegacyResultSchema v"
  shows "parse CallToolResultSchema v = parse ContentResultSchema v"
  using assms by (simp add: CallToolResultSchema_def or_def accepts_def split: sum.splits)

theorem content_dialect_first_witness:
  "accepts ContentResultSchema (Some (JObj (fmap_of_list
       [(''content'', JArr []), (''toolResult'', JNum 42)]))) \<and>
   accepts LegacyResultSchema (Some (JObj (fmap_of_list
       [(''content'', JArr []), (''toolResult'', JNum 42)]))) \<and>
   parse CallToolResultSchema (Some (JObj (fmap_of_list
       [(''content'', JArr []), (''toolResult'', JNum 42)]))) =
     Inr (Some (JObj (fmap_of_list
       [(''content'', JArr []), (''toolResult'', JNum 42), (''isError'', JBool False)])))"
proof -
  let ?v = "Some (JObj (fmap_of_list [(''content'', JArr []), (''toolResult'', JNum 42)]))"
  have a: "accepts ContentResultSchema ?v" by code_simp
  have b: "accepts LegacyResultSchema ?v" by code_simp
  have c: "parse ContentResultSchema ?v = Inr (Some (JObj (fmap_of_list
       [(''content'', JArr []), (''toolResult'', JNum 42), (''isError'', JBool False)])))"
    by code_simp
  from a b c content_dialect_first [OF a b] show ?thesis by simp
qed

text \<open>
  C3. A payload of the \<open>content[]\<close> dialect that has no \<open>isError\<close> field is decoded
  to a result whose \<open>isError\<close> is \<open>false\<close>. When the payload is free of
  \<open>__proto__\<close>, the result is the payload with \<open>isError = false\<close> added.
\<close>

theorem is_error_defaults_false:
  assumes "accepts ContentResultSchema (Some (JObj m))"
    and "fmlookup m ''isError'' = None"
  shows "(\<exists>m'. parse CallToolResultSchema (Some (JObj m)) = Inr (Some (JObj m')) \<and>
            fmlookup m' ''isError'' = Some (JBool False)) \<and>
         (proto_free (JObj m) \<longrightarrow>
            parse CallToolResultSchema (Some (JObj m)) =
              Inr (Some (JObj (fmupd ''isError'' (JBool False) m))))"
proof -
  from assms(1) obtain r where r: "parse ContentResultSchema (Some (JObj m)) = Inr r"
    by (auto simp: accepts_def split: sum.splits)
  then have u: "parse CallToolResultSchema (Some (JObj m)) = Inr r"
    by (simp add: CallToolResultSchema_def or_def)
  from parse_content_isError [OF r assms(2)] u
  have first: "\<exists>m'. parse CallToolResultSchema (Some (JObj m)) = Inr (Some (JObj m')) \<and>
            fmlookup m' ''isError'' = Some (JBool False)"
    by auto
  have second: "parse CallToolResultSchema (Some (JObj m)) =
      Inr (Some (JObj (fmupd ''isError'' (JBool False) m)))" if "proto_free (JObj m)"
    using parse_content_result [OF r that] assms(2) u by simp
  from first second show ?thesis by blast
qed

theorem is_error_defaults_false_witness:
  "accepts ContentResultSchema (Some (JObj (fmap_of_list
       [(''content'', JArr [JObj (fmap_of_list
           [(''type'', JStr ''text''), (''text'', JStr ''sunny'')])])]))) \<and>
   fmlookup (fmap_of_list
       [(''content'', JArr [JObj (fmap_of_list
           [(''type'', JStr ''text''), (''text'', JStr ''sunny'')])])]) ''isError'' = None \<and>
   proto_free (JObj (fmap_of_list
       [(''content'', JArr [JObj (fmap_of_list
           [(''type'', JStr ''text''), (''text'', JStr ''sunny'')])])])) \<and>
   parse CallToolResultSchema (Some (JObj (fmap_of_list
       [(''content'', JArr [JObj (fmap_of_list
           [(''type'', JStr ''text''), (''text'', JStr ''sunny'')])])]))) =
     Inr (Some (JObj (fmupd ''isError'' (JBool False) (fmap_of_list
       [(''content'', JArr [JObj (fmap_of_list
           [(''type'', JStr ''text''), (''text'', JStr ''sunny'')])])]))))"
proof -
  let ?m = "fmap_of_list
       [(''content'', JArr [JObj (fmap_of_list
           [(''type'', JStr ''text''), (''text'', JStr ''sunny'')])])]"
  have a: "accepts ContentResultSchema (Some (JObj ?m))" by code_simp
  have b: "fmlookup ?m ''isError'' = None" by (simp add: fmlookup_of_list)
  have c: "proto_free (JObj ?m)" by code_simp
  from a b c is_error_defaults_false [OF a b] show ?thesis by blast
qed

text \<open>
  C9, as the code has it. A payload is accepted by \<open>CallToolResultSchema\<close> exactly when
  it is an object whose \<open>_meta\<close> field is absent or an object. Such an object is
  accepted whatever its \<open>content\<close> is, and without a \<open>toolResult\<close> key, through the
  legacy dialect; but both dialects extend \<open>ResultSchema\<close> and check \<open>_meta\<close>, so an
  object with any other \<open>_meta\<close> is rejected.
\<close>

theorem call_tool_result_accepts:
  "accepts CallToolResultSchema v =
     (case v of Some (JObj m) \<Rightarrow> absent_or_object (fmlookup m ''_meta'') | _ \<Rightarrow> False)"
proof (cases "\<exists>m. v = Some (JObj m)")
  case True
  then obtain m where v: "v = Some (JObj m)" by blast
  have "accepts CallToolResultSchema v =
     (accepts ContentResultSchema v \<or> accepts LegacyResultSchema v)"
    by (simp add: CallToolResultSchema_def or_def accepts_union2)
  with v accepts_legacy [of m] accepts_content_meta [of m] show ?thesis by auto
next
  case False
  then have "\<not> accepts CallToolResultSchema v"
    by (auto simp: CallToolResultSchema_def or_def accepts_def ContentResultSchema_unfold
        LegacyResultSchema_unfold split: option.splits json.splits sum.splits)
  with False show ?thesis by (auto split: option.splits json.splits)
qed

theorem call_tool_result_accepts_witness:
  "accepts CallToolResultSchema (Some (JObj fmempty)) \<and>
   accepts CallToolResultSchema (Some (JObj (fmap_of_list [(''content'', JNum 7)]))) \<and>
   \<not> accepts CallToolResultSchema (Some (JObj (fmap_of_list [(''_meta'', JNull)]))) \<and>
   \<not> accepts CallToolResultSchema (Some (JArr []))"
  using call_tool_result_accepts [of "Some (JObj fmempty)"]
    call_tool_result_accepts [of "Some (JObj (fmap_of_list [(''content'', JNum 7)]))"]
    call_tool_result_accepts [of "Some (JObj (fmap_of_list [(''_meta'', JNull)]))"]
    call_tool_result_accepts [of "Some (JArr [])"]
  by (simp add: fmlookup_of_list)

text \<open>
  The claim as stated, that every object is accepted, fails: the object
  \<^verbatim>\<open>{"_meta": 5}\<close> is rejected by both dialects.
\<close>

theorem non_object_meta_rejected:
  "parse CallToolResultSchema (Some (JObj (fmap_of_list [(''_meta'', JNum 5)]))) = Inl []"
  by code_simp

subsection \<open>Resource content parts: \<open>text\<close> and \<open>blob\<close>\<close>

text \<open>
  C2, as the code has it. The resource of a part of type \<open>resource\<close> is matched against
  the union of the text-resource and the blob-resource schemas, both passthrough. The
  part is accepted exactly when the resource has a string \<open>uri\<close>, a \<open>mimeType\<close> that
  is absent or a string, and a string \<open>text\<close> or a base64 string \<open>blob\<close>: at least
  one of the two, not exactly one. With neither it is rejected; with both it is accepted.
\<close>

theorem resource_part_accepted:
  assumes "fmlookup m ''type'' = Some (JStr ''resource'')"
    and "fmlookup m ''resource'' = Some (JObj r)"
  shows "accepts EmbeddedResourceSchema (Some (JObj m)) =
     (is_string (fmlookup r ''uri'') \<and> absent_or_string (fmlookup r ''mimeType'') \<and>
      (is_string (fmlookup r ''text'') \<or> is_base64_string (fmlookup r ''blob'')))"
  using assms
  by (auto simp: accepts_embedded_resource accepts_union2 accepts_text_resource
      accepts_blob_resource)

theorem resource_part_accepted_witness:
  "fmlookup (fmap_of_list
       [(''type'', JStr ''resource''),
        (''resource'', JObj (fmap_of_list [(''uri'', JStr ''file:///a.txt'')]))])
     ''type'' = Some (JStr ''resource'') \<and>
   fmlookup (fmap_of_list
       [(''type'', JStr ''resource''),
        (''resource'', JObj (fmap_of_list [(''uri'', JStr ''file:///a.txt'')]))])
     ''resource'' = Some (JObj (fmap_of_list [(''uri'', JStr ''file:///a.txt'')])) \<and>
   \<not> accepts EmbeddedResourceSchema (Some (JObj (fmap_of_list
       [(''type'', JStr ''resource''),
        (''resource'', JObj (fmap_of_list [(''uri'', JStr ''file:///a.txt'')]))]))) \<and>
   accepts EmbeddedResourceSchema (Some (JObj (fmap_of_list
       [(''type'', JStr ''resource''),
        (''resource'', JObj (fmap_of_list
           [(''uri'', JStr ''file:///a.txt''), (''blob'', JStr ''aGk='')]))])))"
  using
    resource_part_accepted [of
      "fmap_of_list
         [(''type'', JStr ''resource''),
          (''resource'', JObj (fmap_of_list [(''uri'', JStr ''file:///a.txt'')]))]"
      "fmap_of_list [(''uri'', JStr ''file:///a.txt'')]"]
    resource_part_accepted [of
      "fmap_of_list
         [(''type'', JStr ''resource''),
          (''resource'', JObj (fmap_of_list
             [(''uri'', JStr ''file:///a.txt''), (''blob'', JStr ''aGk='')]))]"
      "fmap_of_list [(''uri'', JStr ''file:///a.txt''), (''blob'', JStr ''aGk='')]"]
  by (simp add: fmlookup_of_list base64_char_def)

text \<open>
  The claim as stated, that a resource with both \<open>text\<close> and \<open>blob\<close> is rejected,
  fails: this part carries both and is accepted.
\<close>

theorem resource_text_and_blob_accepted:
  "accepts EmbeddedResourceSchema (Some (JObj (fmap_of_list
     [(''type'', JStr ''resource''),
      (''resource'', JObj (fmap_of_list
         [(''uri'', JStr ''file:///a.txt''), (''text'', JStr ''hi''),
          (''blob'', JStr ''aGk='')]))])))"
  by code_simp

subsection \<open>Round trip\<close>

text \<open>
  C7, as the code has it. For a message free of \<open>__proto__\<close>: validation returns it
  unchanged, with every unrecognized field at every level, when its schema is
  passthrough-only, which every schema of the file but two is (lemma
  \<open>passthrough_only_schemas\<close>); a tool result is returned unchanged or, in the
  \<open>content[]\<close> dialect without \<open>isError\<close>, with \<open>isError = false\<close> added and
  nothing else changed. \<open>RequestSchema\<close> is a plain object: of a request, validation
  keeps the fields \<open>method\<close> and \<open>params\<close>, the latter unchanged with its
  unrecognized fields, and no other top-level field.
\<close>

theorem validation_keeps_fields:
  "(passthrough_only s \<and> proto_free j \<and> parse s (Some j) = Inr r \<longrightarrow> r = Some j) \<and>
   (proto_free (JObj m) \<and> parse CallToolResultSchema (Some (JObj m)) = Inr r' \<longrightarrow>
      r' = Some (JObj m) \<or>
      fmlookup m ''isError'' = None \<and>
        r' = Some (JObj (fmupd ''isError'' (JBool False) m))) \<and>
   (proto_free (JObj q) \<and> parse RequestSchema (Some (JObj q)) = Inr r'' \<longrightarrow>
      r'' = Some (JObj (fmrestrict_set {''method'', ''params''} q)))"
proof (intro conjI impI)
  assume "passthrough_only s \<and> proto_free j \<and> parse s (Some j) = Inr r"
  then show "r = Some j" by (blast dest: parse_identity)
next
  assume h: "proto_free (JObj m) \<and> parse CallToolResultSchema (Some (JObj m)) = Inr r'"
  then have f: "proto_free (JObj m)"
    and a: "parse CallToolResultSchema (Some (JObj m)) = Inr r'"
    by blast+
  show "r' = Some (JObj m) \<or>
      fmlookup m ''isError'' = None \<and> r' = Some (JObj (fmupd ''isError'' (JBool False) m))"
  proof (cases "parse ContentResultSchema (Some (JObj m))")
    case (Inl p)
    with a have "parse LegacyResultSchema (Some (JObj m)) = Inr r'"
      by (simp add: CallToolResultSchema_def or_def split: sum.splits)
    with passthrough_only_legacy f have "r' = Some (JObj m)" by (rule parse_identity)
    then show ?thesis by simp
  next
    case (Inr c)
    with a have "c = r'" by (simp add: CallToolResultSchema_def or_def)
    with parse_content_result [OF Inr f] show ?thesis
      by (cases "fmlookup m ''isError''") simp_all
  qed
next
  assume "proto_free (JObj q) \<and> parse RequestSchema (Some (JObj q)) = Inr r''"
  then show "r'' = Some (JObj (fmrestrict_set {''method'', ''params''} q))"
    by (blast dest: parse_request)
qed

theorem validation_keeps_fields_witness:
  "passthrough_only InitializeResultSchema \<and>
   proto_free (JObj (fmap_of_list
     [(''protocolVersion'', JStr ''2025-06-18''),
      (''capabilities'', JObj (fmap_of_list
         [(''tools'', JObj (fmap_of_list
             [(''listChanged'', JBool True), (''vendorFlag'', JNum 1)])),
          (''sampling'', JObj fmempty)])),
      (''serverInfo'', JObj (fmap_of_list
         [(''name'', JStr ''srv''), (''version'', JStr ''1.0''), (''build'', JStr ''7'')])),
      (''_meta'', JObj (fmap_of_list [(''traceId'', JStr ''t1'')])),
      (''extra'', JArr [JNum 1, JNull])])) \<and>
   parse InitializeResultSchema (Some (JObj (fmap_of_list
     [(''protocolVersion'', JStr ''2025-06-18''),
      (''capabilities'', JObj (fmap_of_list
         [(''tools'', JObj (fmap_of_list
             [(''listChanged'', JBool True), (''vendorFlag'', JNum 1)])),
          (''sampling'', JObj fmempty)])),
      (''serverInfo'', JObj (fmap_of_list
         [(''name'', JStr ''srv''), (''version'', JStr ''1.0''), (''build'', JStr ''7'')])),
      (''_meta'', JObj (fmap_of_list [(''traceId'', JStr ''t1'')])),
      (''extra'', JArr [JNum 1, JNull])]))) =
   Inr (Some (JObj (fmap_of_list
     [(''protocolVersion'', JStr ''2025-06-18''),
      (''capabilities'', JObj (fmap_of_list
         [(''tools'', JObj (fmap_of_list
             [(''listChanged'', JBool True), (''vendorFlag'', JNum 1)])),
          (''sampling'', JObj fmempty)])),
      (''serverInfo'', JObj (fmap_of_list
         [(''name'', JStr ''srv''), (''version'', JStr ''1.0''), (''build'', JStr ''7'')])),
      (''_meta'', JObj (fmap_of_list [(''traceId'', JStr ''t1'')])),
      (''extra'', JArr [JNum 1, JNull])]))) \<and>
   parse CallToolResultSchema (Some (JObj (fmap_of_list
     [(''content'', JArr []), (''vendor'', JStr ''x'')]))) =
   Inr (Some (JObj (fmupd ''isError'' (JBool False) (fmap_of_list
     [(''content'', JArr []), (''vendor'', JStr ''x'')])))) \<and>
   parse RequestSchema (Some (JObj (fmap_of_list
     [(''method'', JStr ''tools/list''),
      (''params'', JObj (fmap_of_list [(''cursor'', JStr ''c1'')])),
      (''traceId'', JStr ''t1'')]))) =
   Inr (Some (JObj (fmrestrict_set {''method'', ''params''} (fmap_of_list
     [(''method'', JStr ''tools/list''),
      (''params'', JObj (fmap_of_list [(''cursor'', JStr ''c1'')])),
      (''traceId'', JStr ''t1'')]))))"
proof -
  let ?init = "JObj (fmap_of_list
     [(''protocolVersion'', JStr ''2025-06-18''),
      (''capabilities'', JObj (fmap_of_list
         [(''tools'', JObj (fmap_of_list
             [(''listChanged'', JBool True), (''vendorFlag'', JNum 1)])),
          (''sampling'', JObj fmempty)])),
      (''serverInfo'', JObj (fmap_of_list
         [(''name'', JStr ''srv''), (''version'', JStr ''1.0''), (''build'', JStr ''7'')])),
      (''_meta'', JObj (fmap_of_list [(''traceId'', JStr ''t1'')])),
      (''extra'', JArr [JNum 1, JNull])])"
  let ?res = "fmap_of_list [(''content'', JArr []), (''vendor'', JStr ''x'')]"
  let ?req = "fmap_of_list
     [(''method'', JStr ''tools/list''),
      (''params'', JObj (fmap_of_list [(''cursor'', JStr ''c1'')])),
      (''traceId'', JStr ''t1'')]"
  have p: "passthrough_only InitializeResultSchema" by (rule passthrough_only_schemas)
  have f: "proto_free ?init" by code_simp
  have "accepts InitializeResultSchema (Some ?init)" by code_simp
  then obtain r where r: "parse InitializeResultSchema (Some ?init) = Inr r"
    by (auto simp: accepts_def split: sum.splits)
  have fres: "proto_free (JObj ?res)" by code_simp
  have r': "parse CallToolResultSchema (Some (JObj ?res)) =
      Inr (Some (JObj (fmupd ''isError'' (JBool False) ?res)))"
    by code_simp
  have freq: "proto_free (JObj ?req)" by code_simp
  have "accepts RequestSchema (Some (JObj ?req))" by code_simp
  then obtain r'' where r'': "parse RequestSchema (Some (JObj ?req)) = Inr r''"
    by (auto simp: accepts_def split: sum.splits)
  from validation_keeps_fields [where s = InitializeResultSchema and j = ?init and r = r
      and m = ?res and q = ?req and r'' = r''] p f r fres r' freq r''
  show ?thesis by simp
qed

text \<open>
  The claim as stated, for every message, fails on a request: its unrecognized
  top-level field \<open>traceId\<close> is dropped.
\<close>

theorem request_drops_unknown_field:
  "parse RequestSchema (Some (JObj (fmap_of_list
     [(''method'', JStr ''tools/list''), (''traceId'', JStr ''t1'')]))) =
   Inr (Some (JObj (fmap_of_list [(''method'', JStr ''tools/list'')])))"
  by code_simp

subsection \<open>Version negotiation\<close>

text \<open>
  C4. A server-offered version that is a member of \<open>SUPPORTED_PROTOCOL_VERSIONS\<close> is
  adopted, exactly that version; one that is not a member fails with
  \<open>ProtocolVersionMismatch\<close>, which carries the client's supported list and the offered
  value, and the session is unusable afterwards.
\<close>

theorem negotiate_supported:
  "(offered \<in> set SUPPORTED_PROTOCOL_VERSIONS \<longrightarrow>
      negotiate SUPPORTED_PROTOCOL_VERSIONS offered = Inr offered \<and>
      handshake offered = Ready offered) \<and>
   (offered \<notin> set SUPPORTED_PROTOCOL_VERSIONS \<longrightarrow>
      negotiate SUPPORTED_PROTOCOL_VERSIONS offered =
        Inl (ProtocolVersionMismatch SUPPORTED_PROTOCOL_VERSIONS offered) \<and>
      \<not> usable (handshake offered))"
  by (simp add: negotiate_def handshake_def)

theorem negotiate_supported_witness:
  "''2025-03-26'' \<in> set SUPPORTED_PROTOCOL_VERSIONS \<and>
   negotiate SUPPORTED_PROTOCOL_VERSIONS ''2025-03-26'' = Inr ''2025-03-26'' \<and>
   handshake ''2025-03-26'' = Ready ''2025-03-26'' \<and>
   ''2023-01-01'' \<notin> set SUPPORTED_PROTOCOL_VERSIONS \<and>
   negotiate SUPPORTED_PROTOCOL_VERSIONS ''2023-01-01'' =
     Inl (ProtocolVersionMismatch SUPPORTED_PROTOCOL_VERSIONS ''2023-01-01'') \<and>
   \<not> usable (handshake ''2023-01-01'')"
proof -
  have a: "''2025-03-26'' \<in> set SUPPORTED_PROTOCOL_VERSIONS"
    by (simp add: SUPPORTED_PROTOCOL_VERSIONS_def LATEST_PROTOCOL_VERSION_def)
  have b: "''2023-01-01'' \<notin> set SUPPORTED_PROTOCOL_VERSIONS"
    by (simp add: SUPPORTED_PROTOCOL_VERSIONS_def LATEST_PROTOCOL_VERSION_def)
  show ?thesis
    using a b negotiate_supported [of "''2025-03-26''"] negotiate_supported [of "''2023-01-01''"]
    by blast
qed

subsection \<open>Pagination\<close>

lemma aggregate_complete:
  "\<forall>p \<in> set ps. nextCursor p \<noteq> None \<Longrightarrow>
   distinct_adj (prev # map nextCursor ps) \<Longrightarrow>
   nextCursor final = None \<Longrightarrow>
   aggregate prev acc (ps @ [final]) = Inr (acc @ concat (map tools ps) @ tools final)"
proof (induction ps arbitrary: prev acc)
  case Nil
  then show ?case by simp
next
  case (Cons p ps)
  from Cons.prems(1) obtain c where c: "nextCursor p = Some c" by auto
  from Cons.prems(2) c have ne: "prev \<noteq> Some c" by simp
  have "aggregate (Some c) (acc @ tools p) (ps @ [final]) =
          Inr ((acc @ tools p) @ concat (map tools ps) @ tools final)"
  proof (rule Cons.IH)
    show "\<forall>p \<in> set ps. nextCursor p \<noteq> None" using Cons.prems(1) by simp
    show "distinct_adj (Some c # map nextCursor ps)"
      using Cons.prems(2) c by (simp add: distinct_adj_Cons)
    show "nextCursor final = None" by (rule Cons.prems(3))
  qed
  with c ne show ?case by simp
qed

lemma aggregate_loop:
  "\<forall>p \<in> set ps. nextCursor p \<noteq> None \<Longrightarrow>
   distinct_adj (prev # map nextCursor ps) \<Longrightarrow>
   nextCursor q = last (prev # map nextCursor ps) \<Longrightarrow>
   nextCursor q \<noteq> None \<Longrightarrow>
   aggregate prev acc (ps @ q # rest) = Inl PaginationLoopError"
proof (induction ps arbitrary: prev acc)
  case Nil
  then show ?case by auto
next
  case (Cons p ps)
  from Cons.prems(1) obtain c where c: "nextCursor p = Some c" by auto
  from Cons.prems(2) c have ne: "prev \<noteq> Some c" by simp
  have "aggregate (Some c) (acc @ tools p) (ps @ q # rest) = Inl PaginationLoopError"
  proof (rule Cons.IH)
    show "\<forall>p \<in> set ps. nextCursor p \<noteq> None" using Cons.prems(1) by simp
    show "distinct_adj (Some c # map nextCursor ps)"
      using Cons.prems(2) c by (simp add: distinct_adj_Cons)
    show "nextCursor q = last (Some c # map nextCursor ps)"
      using Cons.prems(3) c by simp
    show "nextCursor q \<noteq> None" by (rule Cons.prems(4))
  qed
  with c ne show ?case by simp
qed

text \<open>
  C5. When the server answers with pages whose cursors \<open>c1 .. c(N-1)\<close> never repeat
  the one before, followed by a final page without \<open>nextCursor\<close>, the aggregate
  operation returns the concatenation of all the pages' tools, in page order. When a
  page repeats the cursor of the page before it, the operation fails with
  \<open>PaginationLoopError\<close>: the result is the error, with no list.
\<close>

theorem listToolsAll_pages:
  "((\<forall>p \<in> set ps. nextCursor p \<noteq> None) \<and> distinct_adj (map nextCursor ps) \<and>
      nextCursor final = None \<longrightarrow>
      listToolsAll (ps @ [final]) = Inr (concat (map tools (ps @ [final])))) \<and>
   ((\<forall>p \<in> set ps. nextCursor p \<noteq> None) \<and> distinct_adj (map nextCursor ps) \<and>
      ps \<noteq> [] \<and> nextCursor q = nextCursor (last ps) \<longrightarrow>
      listToolsAll (ps @ q # rest) = Inl PaginationLoopError)"
proof (intro conjI impI)
  assume h: "(\<forall>p \<in> set ps. nextCursor p \<noteq> None) \<and> distinct_adj (map nextCursor ps) \<and>
      nextCursor final = None"
  then have "distinct_adj (None # map nextCursor ps)"
    by (cases ps) (auto simp: distinct_adj_Cons)
  with h show "listToolsAll (ps @ [final]) = Inr (concat (map tools (ps @ [final])))"
    by (simp add: listToolsAll_def aggregate_complete)
next
  assume h: "(\<forall>p \<in> set ps. nextCursor p \<noteq> None) \<and> distinct_adj (map nextCursor ps) \<and>
      ps \<noteq> [] \<and> nextCursor q = nextCursor (last ps)"
  then have d: "distinct_adj (None # map nextCursor ps)"
    by (cases ps) (auto simp: distinct_adj_Cons)
  from h have l: "nextCursor q = last (None # map nextCursor ps)"
    by (simp add: last_map)
  from h have "nextCursor (last ps) \<noteq> None" by simp
  with h have n: "nextCursor q \<noteq> None" by simp
  from h d l n show "listToolsAll (ps @ q # rest) = Inl PaginationLoopError"
    unfolding listToolsAll_def by (intro aggregate_loop) auto
qed

theorem listToolsAll_pages_witness:
  "distinct_adj (map nextCursor
     [\<lparr>tools = [JStr ''search''], nextCursor = Some ''c1''\<rparr>,
      \<lparr>tools = [JStr ''fetch'', JStr ''read''], nextCursor = Some ''c2''\<rparr>]) \<and>
   listToolsAll
     [\<lparr>tools = [JStr ''search''], nextCursor = Some ''c1''\<rparr>,
      \<lparr>tools = [JStr ''fetch'', JStr ''read''], nextCursor = Some ''c2''\<rparr>,
      \<lparr>tools = [JStr ''write''], nextCursor = None\<rparr>] =
     Inr [JStr ''search'', JStr ''fetch'', JStr ''read'', JStr ''write''] \<and>
   listToolsAll
     [\<lparr>tools = [JStr ''search''], nextCursor = Some ''c1''\<rparr>,
      \<lparr>tools = [JStr ''fetch'', JStr ''read''], nextCursor = Some ''c2''\<rparr>,
      \<lparr>tools = [JStr ''write''], nextCursor = Some ''c2''\<rparr>,
      \<lparr>tools = [JStr ''list''], nextCursor = None\<rparr>] =
     Inl PaginationLoopError"
proof -
  let ?ps = "[\<lparr>tools = [JStr ''search''], nextCursor = Some ''c1''\<rparr>,
              \<lparr>tools = [JStr ''fetch'', JStr ''read''], nextCursor = Some ''c2''\<rparr>]"
  have a: "\<forall>p \<in> set ?ps. nextCursor p \<noteq> None" by simp
  have b: "distinct_adj (map nextCursor ?ps)" by simp
  from a b
    listToolsAll_pages [of ?ps "\<lparr>tools = [JStr ''write''], nextCursor = None\<rparr>"
      "\<lparr>tools = [JStr ''write''], nextCursor = Some ''c2''\<rparr>"
      "[\<lparr>tools = [JStr ''list''], nextCursor = None\<rparr>]"]
  show ?thesis by simp
qed

subsection \<open>Tool proxy\<close>

text \<open>
  C6. A proxy validates its input against the tool's input schema before anything is
  sent. When the validation fails, the result is an \<open>InputValidationError\<close> with the
  tool's name and the failing schema path, and no request is sent; when it succeeds,
  exactly one call request is sent, for this tool and this input.
\<close>

theorem execute_validates_first:
  "(inputSchema proxy input = Inl path \<longrightarrow>
      execute proxy respond input sent =
        (Inl (InputValidationError (toolName proxy) path), sent)) \<and>
   (inputSchema proxy input = Inr valid \<longrightarrow>
      snd (execute proxy respond input sent) =
        sent @ [\<lparr>method = ''tools/call'', name = toolName proxy, arguments = input\<rparr>])"
  by (simp add: execute_def Let_def)

theorem execute_validates_first_witness:
  "inputSchema \<lparr>toolName = ''search'', inputSchema = query_schema\<rparr>
     (JObj (fmap_of_list [(''query'', JStr [])])) = Inl [Key ''query''] \<and>
   execute \<lparr>toolName = ''search'', inputSchema = query_schema\<rparr>
     (\<lambda>request. JObj (fmap_of_list [(''toolResult'', JNum 42)]))
     (JObj (fmap_of_list [(''query'', JStr [])])) [] =
     (Inl (InputValidationError ''search'' [Key ''query'']), []) \<and>
   inputSchema \<lparr>toolName = ''search'', inputSchema = query_schema\<rparr>
     (JObj (fmap_of_list [(''query'', JStr ''x'')])) =
     Inr (JObj (fmap_of_list [(''query'', JStr ''x'')])) \<and>
   snd (execute \<lparr>toolName = ''search'', inputSchema = query_schema\<rparr>
     (\<lambda>request. JObj (fmap_of_list [(''toolResult'', JNum 42)]))
     (JObj (fmap_of_list [(''query'', JStr ''x'')])) []) =
     [\<lparr>method = ''tools/call'', name = ''search'',
       arguments = JObj (fmap_of_list [(''query'', JStr ''x'')])\<rparr>]"
proof -
  let ?proxy = "\<lparr>toolName = ''search'', inputSchema = query_schema\<rparr>"
  let ?respond = "\<lambda>request :: call_request. JObj (fmap_of_list [(''toolResult'', JNum 42)])"
  have a: "inputSchema ?proxy (JObj (fmap_of_list [(''query'', JStr [])])) = Inl [Key ''query'']"
    by (simp add: query_schema_def fmlookup_of_list)
  have b: "inputSchema ?proxy (JObj (fmap_of_list [(''query'', JStr ''x'')])) =
      Inr (JObj (fmap_of_list [(''query'', JStr ''x'')]))"
    by (simp add: query_schema_def fmlookup_of_list)
  from a b
    execute_validates_first [of ?proxy "JObj (fmap_of_list [(''query'', JStr [])])"
      "[Key ''query'']" ?respond "[]"]
    execute_validates_first [of ?proxy "JObj (fmap_of_list [(''query'', JStr ''x'')])"
      _ ?respond "[]" "JObj (fmap_of_list [(''query'', JStr ''x'')])"]
  show ?thesis by simp
qed

end
